theory Spec2Isabelle
  imports Main "HOL-Library.AList"
begin

section \<open>Python primitives used by git-pull-request.py\<close>

text \<open>
  Text is modelled as \<open>string\<close>, a list of 8-bit characters read as code points 0..255.
  In that range the regular-expression class \<open>\d\<close> of Python 3 is exactly \<open>0\<close>..\<open>9\<close>
  and \<open>[A-Z]\<close> is exactly \<open>A\<close>..\<open>Z\<close>.
\<close>

definition is_digit :: "char \<Rightarrow> bool" where
  "is_digit c = (48 \<le> (of_char c :: nat) \<and> (of_char c :: nat) \<le> 57)"

definition is_upper :: "char \<Rightarrow> bool" where
  "is_upper c = (65 \<le> (of_char c :: nat) \<and> (of_char c :: nat) \<le> 90)"

definition digit_char :: "nat \<Rightarrow> char" where
  "digit_char d = char_of (48 + d)"

definition digit_val :: "char \<Rightarrow> nat" where
  "digit_val c = of_char c - 48"

text \<open>\<open>str(n)\<close> for a Python int, as produced by \<open>"%s" % n\<close>.\<close>

function str_nat :: "nat \<Rightarrow> string" where
  "str_nat n = (if n < 10 then [digit_char n] else str_nat (n div 10) @ [digit_char (n mod 10)])"
  by pat_completeness auto
termination
  by (relation "measure id") auto

declare str_nat.simps [simp del]

definition str_int :: "int \<Rightarrow> string" where
  "str_int i = (if i < 0 then CHR ''-'' # str_nat (nat (- i)) else str_nat (nat i))"

text \<open>\<open>int(s)\<close> on a non-empty string of decimal digits.\<close>

definition int_of_digits :: "string \<Rightarrow> int" where
  "int_of_digits ds = int (foldl (\<lambda>a c. 10 * a + digit_val c) 0 ds)"

section \<open>Branch naming and identification\<close>

text \<open>
  The fields of a pull request (the JSON object returned by the hosting API) that branch
  naming and fetch read: \<open>number\<close>, \<open>head.ref\<close>, \<open>head.sha\<close>, \<open>base.sha\<close>,
  \<open>title\<close> and \<open>user.login\<close>.
\<close>

record pull_request =
  number :: int
  head_ref :: string
  head_sha :: string
  base_sha :: string
  title :: string
  user_login :: string

text \<open>
  \<open>re.match\<close> of \<open>[A-Z]{3,}-\d+\<close> at the start of the text. Both repetitions are greedy.
  The run of capitals must be followed by the hyphen, so no shorter run can match either:
  backtracking never succeeds where the maximal run fails.
\<close>

definition match_ticket :: "string \<Rightarrow> string option" where
  "match_ticket s =
     (let u = takeWhile is_upper s; r = dropWhile is_upper s in
      if 3 \<le> length u then
        (case r of
           [] \<Rightarrow> None
         | c # r' \<Rightarrow>
             (if c = CHR ''-'' \<and> takeWhile is_digit r' \<noteq> []
              then Some (u @ [c] @ takeWhile is_digit r') else None))
      else None)"

text \<open>\<open>re.search(r"[A-Z]{3,}-\d+", text)\<close>: the match at the leftmost position that has one.\<close>

fun search_ticket :: "string \<Rightarrow> string option" where
  "search_ticket [] = match_ticket []"
| "search_ticket (c # cs) =
     (case match_ticket (c # cs) of Some t \<Rightarrow> Some t | None \<Rightarrow> search_ticket cs)"

definition get_jira_ticket :: "string \<Rightarrow> string" where
  "get_jira_ticket text =
     (let m = search_ticket text; jira_ticket = [] in
      case m of
        None \<Rightarrow> jira_ticket
      | Some g0 \<Rightarrow> (if g0 \<noteq> [] then g0 else jira_ticket))"

definition build_branch_name :: "pull_request \<Rightarrow> string" where
  "build_branch_name pr =
     (let ref = head_ref pr;
          request_id = number pr;
          branch_name = ''pull-request-'' @ str_int request_id;
          jira_ticket = get_jira_ticket ref;
          jira_ticket = (if jira_ticket = [] then get_jira_ticket (title pr) else jira_ticket)
      in if jira_ticket \<noteq> [] then branch_name @ ''-'' @ jira_ticket else branch_name)"

definition build_pull_request_title :: "string \<Rightarrow> string" where
  "build_pull_request_title branch_name =
     (let jira_ticket = get_jira_ticket branch_name in
      if jira_ticket \<noteq> [] then jira_ticket else branch_name)"

text \<open>
  \<open>re.search(r"^pull-request-(\d+)", branch_name)\<close>, returning group 1: the pattern is
  anchored at the start of the string, and \<open>\d+\<close> takes the longest run of digits.
\<close>

definition search_pull_request_id :: "string \<Rightarrow> string option" where
  "search_pull_request_id branch_name =
     (if take 13 branch_name = ''pull-request-'' \<and> takeWhile is_digit (drop 13 branch_name) \<noteq> []
      then Some (takeWhile is_digit (drop 13 branch_name)) else None)"

definition get_pull_request_ID :: "string \<Rightarrow> int option" where
  "get_pull_request_ID branch_name =
     (case search_pull_request_id branch_name of
        None \<Rightarrow> None
      | Some g1 \<Rightarrow> (if g1 \<noteq> [] then Some (int_of_digits g1) else None))"

subsection \<open>The ticket pattern as the specification words it\<close>

text \<open>
  A ticket token is three or more capital letters, a hyphen, and one or more digits.
  \<open>ticket_at text i t\<close>: the token \<open>t\<close> occurs in \<open>text\<close> at position \<open>i\<close>.
  \<open>first_ticket text t\<close>: \<open>t\<close> is the occurrence that starts leftmost and, of those starting
  there, the longest.
\<close>

definition is_ticket :: "string \<Rightarrow> bool" where
  "is_ticket t = (\<exists>u d. t = u @ ''-'' @ d \<and> 3 \<le> length u \<and> list_all is_upper u
                        \<and> d \<noteq> [] \<and> list_all is_digit d)"

definition ticket_at :: "string \<Rightarrow> nat \<Rightarrow> string \<Rightarrow> bool" where
  "ticket_at text i t = (is_ticket t \<and> i + length t \<le> length text \<and> take (length t) (drop i text) = t)"


definition first_ticket :: "string \<Rightarrow> string \<Rightarrow> bool" where
  "first_ticket text t =
     (\<exists>i. ticket_at text i t \<and>
          (\<forall>j t'. ticket_at text j t' \<longrightarrow> i < j \<or> (i = j \<and> length t' \<le> length t)))"

section \<open>Values, errors and the world the tool runs in\<close>

text \<open>
  A JSON value as \<open>json.load\<close> returns it; \<open>JNull\<close> is Python's \<open>None\<close>. A JSON object is a
  Python dict: an association list read with \<open>map_of\<close> and written with \<open>AList.update\<close>,
  which replaces the value of a present key in place and appends an absent one.
  Numbers are integers.
\<close>

datatype json =
    JNull
  | JBool bool
  | JNum int
  | JStr string
  | JArr "json list"
  | JObj "(string \<times> json) list"

text \<open>The exceptions of the modelled code. \<open>UserWarning\<close> is the one the top level catches.\<close>

datatype error =
    UserWarning string
  | KeyError
  | TypeError
  | ValueError
  | OSError
  | AttributeError
  | IndexError
  | UnboundLocalError

text \<open>Python 3 text: a \<open>str\<close>, or the \<open>bytes\<close> that a file opened in binary mode yields.\<close>

datatype pytext = Str string | Bytes string

fun path_of :: "pytext \<Rightarrow> string" where
  "path_of (Str p) = p"
| "path_of (Bytes p) = p"

text \<open>
  What \<open>json.load\<close> finds in a record file: a document, or content that does not parse
  (empty, truncated, not JSON).
\<close>

datatype contents = Document json | Garbled

text \<open>What the process has done, in order: commands run, requests sent, lines logged.\<close>

datatype event =
    Sys string string
  | Http string string json
  | Dumped string "json list"
  | Printed string

text \<open>The module-level \<open>_work_dir\<close>: not yet computed, \<open>False\<close>, or a path.\<close>

datatype work_dir = WFalse | WPath string

text \<open>
  The state of a run. \<open>ext\<close> is everything outside the process (the git repositories, the
  rest of the file system, the hosting service). The files the tool owns are kept apart:
  \<open>json_files\<close> are the metadata records, reached only through \<open>json.load\<close> and
  \<open>json.dump\<close>; \<open>raw_files\<close> are the two pointer files, reached only through \<open>read\<close> and
  \<open>write\<close>. Their paths differ, and external commands are taken not to touch them.
  Writing a file always succeeds. \<open>trace\<close> is a history added for the proofs.
\<close>

record 'x world =
  ext :: 'x
  cwd :: string
  json_files :: "string \<rightharpoonup> contents"
  raw_files :: "string \<rightharpoonup> string"
  work_dir_cache :: "work_dir option"
  trace :: "event list"

datatype body = Empty_body | Malformed_body | Json_body json

datatype http_outcome = Transport_failure | Response nat body

text \<open>
  The collaborators and settings, fixed during a run. \<open>system_call\<close> is \<open>os.system\<close> (working
  directory, command line, external state; exit status and new external state), \<open>popen_read\<close>
  is \<open>os.popen(...).read()\<close> for the read-only git queries, \<open>http_send\<close> is
  \<open>urllib3.PoolManager().request\<close>. Option values are strings or \<open>None\<close>; \<open>render\<close> is
  \<open>str\<close> of a Python list or dict.
\<close>

record 'x env =
  system_call :: "string \<Rightarrow> string \<Rightarrow> 'x \<Rightarrow> int \<times> 'x"
  popen_read :: "string \<Rightarrow> string \<Rightarrow> 'x \<Rightarrow> string"
  http_send :: "string \<Rightarrow> string \<Rightarrow> json \<Rightarrow> 'x \<Rightarrow> http_outcome \<times> 'x"
  path_exists :: "string \<Rightarrow> string \<Rightarrow> 'x \<Rightarrow> bool"
  path_isdir :: "string \<Rightarrow> string \<Rightarrow> 'x \<Rightarrow> bool"
  path_islink :: "string \<Rightarrow> string \<Rightarrow> 'x \<Rightarrow> bool"
  readlink :: "string \<Rightarrow> string \<Rightarrow> 'x \<Rightarrow> string option"
  display_pull_request :: "json \<Rightarrow> error option"
  render :: "json \<Rightarrow> string"
  tmp_dir :: string
  debug :: bool
  default_username :: string
  opt_update_branch :: "string option"
  opt_update_method :: "string option"
  opt_work_dir :: "string option"
  opt_close_default_comment :: "string option"
  opt_merge_auto_close :: bool

text \<open>A computation: it ends in an exception or a value, and leaves a state either way.\<close>

type_synonym ('a, 'x) io = "'x world \<Rightarrow> (error + 'a) \<times> 'x world"

definition returnE :: "'a \<Rightarrow> ('a, 'x) io" where
  "returnE a s = (Inr a, s)"

definition raiseE :: "error \<Rightarrow> ('a, 'x) io" where
  "raiseE e s = (Inl e, s)"

definition bindE :: "('a, 'x) io \<Rightarrow> ('a \<Rightarrow> ('b, 'x) io) \<Rightarrow> ('b, 'x) io" where
  "bindE m f s = (case m s of (Inl e, s') \<Rightarrow> (Inl e, s') | (Inr a, s') \<Rightarrow> f a s')"

definition os_system :: "'x env \<Rightarrow> string \<Rightarrow> (int, 'x) io" where
  "os_system E cmd s =
     (let (ret, x') = system_call E (cwd s) cmd (ext s)
      in (Inr ret, s\<lparr>ext := x', trace := trace s @ [Sys (cwd s) cmd]\<rparr>))"

definition os_popen :: "'x env \<Rightarrow> string \<Rightarrow> 'x world \<Rightarrow> string" where
  "os_popen E cmd s = popen_read E (cwd s) cmd (ext s)"

subsection \<open>String methods\<close>

text \<open>\<open>str.isspace\<close> on the code points 0..255.\<close>

definition is_space :: "char \<Rightarrow> bool" where
  "is_space c = ((of_char c :: nat) \<in> {9, 10, 11, 12, 13, 28, 29, 30, 31, 32, 133, 160})"

definition py_strip :: "string \<Rightarrow> string" where
  "py_strip s = rev (dropWhile is_space (rev (dropWhile is_space s)))"

text \<open>
  \<open>s.split(c)\<close> for a one-character separator. The result is never the empty list, so
  the last case below does not arise.
\<close>

fun split_on :: "char \<Rightarrow> string \<Rightarrow> string list" where
  "split_on c [] = [[]]"
| "split_on c (x # xs) =
     (if x = c then [] # split_on c xs
      else (case split_on c xs of
              piece # pieces \<Rightarrow> (x # piece) # pieces
            | [] \<Rightarrow> [[x]]))"

text \<open>\<open>k in s\<close> for two strings.\<close>

fun contains_str :: "string \<Rightarrow> string \<Rightarrow> bool" where
  "contains_str k [] = (k = [])"
| "contains_str k (x # xs) = (take (length k) (x # xs) = k \<or> contains_str k xs)"

text \<open>\<open>str.lower\<close> on the code points 0..255.\<close>

definition lower_char :: "char \<Rightarrow> char" where
  "lower_char c =
     (let n = (of_char c :: nat) in
      if (65 \<le> n \<and> n \<le> 90) \<or> (192 \<le> n \<and> n \<le> 222 \<and> n \<noteq> 215) then char_of (n + 32) else c)"

definition py_lower :: "string \<Rightarrow> string" where
  "py_lower s = map lower_char s"

text \<open>\<open>s.replace(old, new)\<close> for a non-empty \<open>old\<close>.\<close>

function py_replace :: "string \<Rightarrow> string \<Rightarrow> string \<Rightarrow> string" where
  "py_replace old new s =
     (if s = [] \<or> old = [] then s
      else if take (length old) s = old then new @ py_replace old new (drop (length old) s)
      else hd s # py_replace old new (tl s))"
  by pat_completeness auto
termination
  by (relation "measure (\<lambda>(old, new, s). length s)") auto

declare py_replace.simps [simp del]

text \<open>\<open>os.path.join\<close> and \<open>os.path.dirname\<close> of \<open>posixpath\<close>.\<close>

definition path_join :: "string \<Rightarrow> string \<Rightarrow> string" where
  "path_join a b =
     (if take 1 b = ''/'' then b
      else if a = [] \<or> last a = CHR ''/'' then a @ b
      else a @ ''/'' @ b)"

definition rstrip_slash :: "string \<Rightarrow> string" where
  "rstrip_slash p = rev (dropWhile (\<lambda>c. c = CHR ''/'') (rev p))"

definition py_dirname :: "string \<Rightarrow> string" where
  "py_dirname p =
     (let hd_part = rev (dropWhile (\<lambda>c. c \<noteq> CHR ''/'') (rev p)) in
      if hd_part \<noteq> [] \<and> \<not> list_all (\<lambda>c. c = CHR ''/'') hd_part then rstrip_slash hd_part
      else hd_part)"

subsection \<open>Operations on Python values\<close>

text \<open>Truth value, \<open>a or b\<close>, \<open>str(v)\<close> and \<open>v == s\<close> for a string \<open>s\<close>.\<close>

fun truthy :: "json \<Rightarrow> bool" where
  "truthy JNull = False"
| "truthy (JBool b) = b"
| "truthy (JNum n) = (n \<noteq> 0)"
| "truthy (JStr s) = (s \<noteq> [])"
| "truthy (JArr xs) = (xs \<noteq> [])"
| "truthy (JObj kvs) = (kvs \<noteq> [])"

definition py_or :: "json \<Rightarrow> json \<Rightarrow> json" where
  "py_or a b = (if truthy a then a else b)"

fun py_str :: "'x env \<Rightarrow> json \<Rightarrow> string" where
  "py_str E (JStr s) = s"
| "py_str E JNull = ''None''"
| "py_str E (JBool b) = (if b then ''True'' else ''False'')"
| "py_str E (JNum n) = str_int n"
| "py_str E v = render E v"

fun opt_str :: "string option \<Rightarrow> string" where
  "opt_str None = ''None''"
| "opt_str (Some s) = s"

text \<open>\<open>obj[k]\<close>, \<open>k in obj\<close> and \<open>obj.get(k)\<close> for a string \<open>k\<close>.\<close>

fun py_getitem :: "json \<Rightarrow> string \<Rightarrow> error + json" where
  "py_getitem (JObj kvs) k = (case map_of kvs k of None \<Rightarrow> Inl KeyError | Some v \<Rightarrow> Inr v)"
| "py_getitem v k = Inl TypeError"

fun py_contains :: "string \<Rightarrow> json \<Rightarrow> error + bool" where
  "py_contains k (JObj kvs) = Inr (map_of kvs k \<noteq> None)"
| "py_contains k (JArr xs) = Inr (JStr k \<in> set xs)"
| "py_contains k (JStr s) = Inr (contains_str k s)"
| "py_contains k v = Inl TypeError"

fun py_get :: "json \<Rightarrow> string \<Rightarrow> error + json" where
  "py_get (JObj kvs) k = (case map_of kvs k of None \<Rightarrow> Inr JNull | Some v \<Rightarrow> Inr v)"
| "py_get v k = Inl AttributeError"

text \<open>\<open>for word in pieces: current_obj = current_obj[word]\<close>.\<close>

fun walk :: "string list \<Rightarrow> json \<Rightarrow> error + json" where
  "walk [] obj = Inr obj"
| "walk (w # ws) obj = (case py_getitem obj w of Inl e \<Rightarrow> Inl e | Inr child \<Rightarrow> walk ws child)"

text \<open>
  The document after \<open>current_obj[key] = value\<close>, where \<open>current_obj\<close> is the object reached
  from the root along \<open>pieces\<close>: the root rebuilt with that one entry changed.
\<close>

fun set_path :: "string list \<Rightarrow> string \<Rightarrow> json \<Rightarrow> json \<Rightarrow> error + json" where
  "set_path [] key v (JObj kvs) = Inr (JObj (AList.update key v kvs))"
| "set_path (w # ws) key v (JObj kvs) =
     (case map_of kvs w of
        None \<Rightarrow> Inl KeyError
      | Some child \<Rightarrow>
          (case set_path ws key v child of
             Inl e \<Rightarrow> Inl e
           | Inr child' \<Rightarrow> Inr (JObj (AList.update w child' kvs))))"
| "set_path ws key v obj = Inl TypeError"

section \<open>The metadata store\<close>

definition get_tmp_path :: "'x env \<Rightarrow> string \<Rightarrow> string" where
  "get_tmp_path E filename = tmp_dir E @ ''/'' @ filename"

definition get_current_branch_name :: "'x env \<Rightarrow> bool \<Rightarrow> (string, 'x) io" where
  "get_current_branch_name E ensure_pull_request s =
     (let branch_name = py_strip (os_popen E ''git rev-parse --abbrev-ref HEAD'' s) in
      if ensure_pull_request \<and> take 13 branch_name \<noteq> ''pull-request-''
      then (Inl (UserWarning ''Invalid branch: not a pull request''), s)
      else (Inr branch_name, s))"

text \<open>
  \<open>log(arg)\<close> with one argument prints \<open>json.dumps(arg, ...)\<close> and the line \<open>/---\<close>. It does
  not read \<open>DEBUG\<close>. The message is kept as its format string and the values formatted
  into it.
\<close>

definition log :: "string \<Rightarrow> json list \<Rightarrow> (unit, 'x) io" where
  "log fmt args s = (Inr (), s\<lparr>trace := trace s @ [Dumped fmt args, Printed ''/---'']\<rparr>)"

fun key_json :: "string option \<Rightarrow> json" where
  "key_json None = JNull"
| "key_json (Some k) = JStr k"

text \<open>
  The \<open>try\<close> block of \<open>meta\<close>, as a function of what the record file holds (\<open>None\<close>: no
  such file): the exception raised together with the value \<open>key\<close> has by then, or the value
  returned together with the document dumped, if one is. A \<open>None\<close> key is dumped by
  \<open>json.dump\<close> as the key \<open>null\<close>.
\<close>

definition meta_try ::
  "string option \<Rightarrow> json \<Rightarrow> contents option \<Rightarrow> (error \<times> string option) + (json \<times> json option)" where
  "meta_try key value f =
     (case f of
        None \<Rightarrow> Inl (OSError, key)
      | Some Garbled \<Rightarrow> Inl (ValueError, key)
      | Some (Document current_value) \<Rightarrow>
          (case key of
             None \<Rightarrow>
               (if value \<noteq> JNull then
                  (case set_path [] ''null'' value current_value of
                     Inl e \<Rightarrow> Inl (e, key)
                   | Inr d \<Rightarrow> Inr (value, Some d))
                else Inr (current_value, None))
           | Some k \<Rightarrow>
               (let pieces = split_on CHR ''.'' k;
                    key' = last pieces;
                    pieces' = butlast pieces
                in case walk pieces' current_value of
                     Inl e \<Rightarrow> Inl (e, Some key')
                   | Inr current_obj \<Rightarrow>
                       (if value = JNull then
                          (case py_contains key' current_obj of
                             Inl e \<Rightarrow> Inl (e, Some key')
                           | Inr True \<Rightarrow>
                               (case py_getitem current_obj key' of
                                  Inl e \<Rightarrow> Inl (e, Some key')
                                | Inr v \<Rightarrow> Inr (v, None))
                           | Inr False \<Rightarrow> Inr (JStr [], None))
                        else
                          (case set_path pieces' key' value current_value of
                             Inl e \<Rightarrow> Inl (e, Some key')
                           | Inr d \<Rightarrow> Inr (value, Some d))))))"

definition meta :: "'x env \<Rightarrow> string option \<Rightarrow> json \<Rightarrow> (json, 'x) io" where
  "meta E key value s =
     (case get_current_branch_name E False s of
        (Inl e, s') \<Rightarrow> (Inl e, s')
      | (Inr branch_name, s') \<Rightarrow>
          (case get_pull_request_ID branch_name of
             None \<Rightarrow> (Inr JNull, s')
           | Some pull_request_ID \<Rightarrow>
               (let meta_data_path =
                      get_tmp_path E (''git-pull-request-treeish-'' @ str_int pull_request_ID)
                in case meta_try key value (json_files s' meta_data_path) of
                     Inr (val, None) \<Rightarrow> (Inr val, s')
                   | Inr (val, Some d) \<Rightarrow>
                       (Inr val, s'\<lparr>json_files := (json_files s')(meta_data_path \<mapsto> Document d)\<rparr>)
                   | Inl (e, key_now) \<Rightarrow>
                       bindE (log (''Could not update '%s' with '%s'' @ [CHR 0x27]) [key_json key_now, value])
                         (\<lambda>_. returnE JNull) s')))"

text \<open>
  The part of \<open>command_fetch\<close> that follows \<open>fetch_pull_request\<close>: the record is built from
  the pull request and dumped to the file named after the ID as the caller gave it.
\<close>

definition command_fetch_store :: "'x env \<Rightarrow> pull_request \<Rightarrow> string \<Rightarrow> (unit, 'x) io" where
  "command_fetch_store E pull_request pull_request_ID s =
     (let parent_commit = base_sha pull_request;
          head_commit = head_sha pull_request;
          username = user_login pull_request;
          branch_info =
            JObj [(''username'', JStr username),
                  (''original'',
                     JObj [(''parent_commit'', JStr (take 10 parent_commit)),
                           (''head_commit'', JStr (take 10 head_commit))])];
          path = get_tmp_path E (''git-pull-request-treeish-'' @ pull_request_ID)
      in (Inr (), s\<lparr>json_files := (json_files s)(path \<mapsto> Document branch_info)\<rparr>))"

definition update_meta :: "'x env \<Rightarrow> (string, 'x) io" where
  "update_meta E =
     bindE (get_current_branch_name E True) (\<lambda>branch_name s.
       (let update_branch_option = opt_update_branch E;
            parent_commit =
              take 10 (py_strip (os_popen E
                (''git merge-base '' @ opt_str update_branch_option @ '' '' @ branch_name) s));
            head_commit = take 10 (py_strip (os_popen E ''git rev-parse HEAD'' s));
            updated = JObj [(''parent_commit'', JStr parent_commit), (''head_commit'', JStr head_commit)]
        in bindE (meta E (Some ''updated'') updated) (\<lambda>_.
             returnE (if parent_commit = head_commit then head_commit
                      else parent_commit @ ''..'' @ head_commit))) s)"

subsection \<open>Reading the store in statements\<close>

text \<open>
  \<open>branch_path E s\<close> is the record file that \<open>meta\<close> addresses in state \<open>s\<close>: the one named
  after the ID of the current branch, if the current branch has one.
  \<open>record_field f k\<close> is the top-level field \<open>k\<close> of the record in the file \<open>f\<close>.
  \<open>updates E ys s\<close> runs one \<open>update_meta\<close> per element of \<open>ys\<close>, each in the external
  state and working directory of its time.
\<close>

definition branch_path :: "'x env \<Rightarrow> 'x world \<Rightarrow> string option" where
  "branch_path E s =
     (case get_pull_request_ID (py_strip (os_popen E ''git rev-parse --abbrev-ref HEAD'' s)) of
        None \<Rightarrow> None
      | Some n \<Rightarrow> Some (get_tmp_path E (''git-pull-request-treeish-'' @ str_int n)))"

fun record_field :: "contents option \<Rightarrow> string \<Rightarrow> json option" where
  "record_field (Some (Document (JObj kvs))) k = map_of kvs k"
| "record_field f k = None"

fun updates :: "'x env \<Rightarrow> ('x \<times> string) list \<Rightarrow> 'x world \<Rightarrow> 'x world" where
  "updates E [] s = s"
| "updates E ((x, d) # ys) s = updates E ys (snd (update_meta E (s\<lparr>ext := x, cwd := d\<rparr>)))"

section \<open>Requests to the hosting service\<close>

definition get_api_url :: "string \<Rightarrow> string" where
  "get_api_url command = ''https://api.github.com/'' @ command"

text \<open>\<open>"%s" % pull_request_ID\<close> where the ID is what \<open>get_pull_request_ID\<close> returned.\<close>

fun id_str :: "int option \<Rightarrow> string" where
  "id_str None = ''None''"
| "id_str (Some n) = str_int n"

text \<open>
  \<open>github_request\<close> posts when \<open>params\<close> is true and gets otherwise. \<open>urllib3\<close> raises when
  the transport fails and returns a response for every status. The handler of that
  exception reads \<open>response.status\<close> while \<open>response\<close> is still \<open>None\<close>, which raises
  \<open>AttributeError\<close>. On the normal path only the body is looked at. The result is the
  decoded body, which is not empty.
\<close>

definition github_request :: "'x env \<Rightarrow> string \<Rightarrow> json \<Rightarrow> (body, 'x) io" where
  "github_request E url params s =
     (let method = (if truthy params then ''POST'' else ''GET'');
          encode_data = (if truthy params then params else JNull);
          (outcome, x') = http_send E method url encode_data (ext s);
          s' = s\<lparr>ext := x', trace := trace s @ [Http method url encode_data]\<rparr>
      in case outcome of
           Transport_failure \<Rightarrow> (Inl AttributeError, s')
         | Response status data \<Rightarrow>
             (if data = Empty_body then (Inl (UserWarning ''Invalid response from github''), s')
              else (Inr data, s')))"

definition github_json_request :: "'x env \<Rightarrow> string \<Rightarrow> json \<Rightarrow> (json, 'x) io" where
  "github_json_request E url params =
     bindE (github_request E url params) (\<lambda>data.
       case data of Json_body j \<Rightarrow> returnE j | _ \<Rightarrow> raiseE ValueError)"

definition post_comment :: "'x env \<Rightarrow> string \<Rightarrow> int option \<Rightarrow> string \<Rightarrow> (json, 'x) io" where
  "post_comment E repo_name pull_request_ID comment =
     (let url = get_api_url (''repos/'' @ repo_name @ ''/issues/'' @ id_str pull_request_ID @ ''/comments'');
          params = JObj [(''body'', JStr comment)]
      in github_json_request E url params)"


text \<open>Iterating a Python value, and \<open>v == o\<close> for an option value \<open>o\<close>.\<close>

fun py_iter :: "json \<Rightarrow> error + json list" where
  "py_iter (JArr xs) = Inr xs"
| "py_iter (JObj kvs) = Inr (map (\<lambda>kv. JStr (fst kv)) kvs)"
| "py_iter (JStr s) = Inr (map (\<lambda>c. JStr [c]) s)"
| "py_iter v = Inl TypeError"

fun eq_opt :: "json \<Rightarrow> string option \<Rightarrow> bool" where
  "eq_opt v None = (v = JNull)"
| "eq_opt v (Some s) = (v = JStr s)"

text \<open>\<open>[pull for pull in pulls if pull["base"]["ref"] == update_branch]\<close>.\<close>

fun filter_pulls :: "string option \<Rightarrow> json list \<Rightarrow> error + json list" where
  "filter_pulls update_branch [] = Inr []"
| "filter_pulls update_branch (pull # pulls) =
     (case py_getitem pull ''base'' of
        Inl e \<Rightarrow> Inl e
      | Inr base \<Rightarrow>
          (case py_getitem base ''ref'' of
             Inl e \<Rightarrow> Inl e
           | Inr r \<Rightarrow>
               (case filter_pulls update_branch pulls of
                  Inl e \<Rightarrow> Inl e
                | Inr rest \<Rightarrow> Inr (if eq_opt r update_branch then pull # rest else rest))))"

definition get_pull_requests :: "'x env \<Rightarrow> string \<Rightarrow> bool \<Rightarrow> (json, 'x) io" where
  "get_pull_requests E repo_name filter_by_update_branch =
     (let url = get_api_url (''repos/'' @ repo_name @ ''/pulls'') in
      bindE (github_json_request E url JNull) (\<lambda>pulls.
        if filter_by_update_branch then
          (case py_iter pulls of
             Inl e \<Rightarrow> raiseE e
           | Inr items \<Rightarrow>
               (case filter_pulls (opt_update_branch E) items of
                  Inl e \<Rightarrow> raiseE e
                | Inr pull_requests \<Rightarrow> returnE (JArr pull_requests)))
        else returnE pulls))"

section \<open>Closing a pull request\<close>

text \<open>
  The loop of \<open>close_pull_request\<close> over the lines of the current listing: the fourth
  space-separated field of a line is compared with that of the line at the same index of
  the original listing, and the loop stops at the first difference.
\<close>

fun commits_differ :: "string list \<Rightarrow> string list \<Rightarrow> error + bool" where
  "commits_differ [] original_tree_commits = Inr False"
| "commits_differ (commit # rest) [] = Inl IndexError"
| "commits_differ (commit # rest) (original # original_rest) =
     (let current_commits = split_on CHR '' '' commit;
          original_commits = split_on CHR '' '' original
      in if 4 \<le> length current_commits \<and> 4 \<le> length original_commits
            \<and> current_commits ! 3 \<noteq> original_commits ! 3
         then Inr True
         else commits_differ rest original_rest)"

text \<open>The value of \<open>diff_commit\<close> when the link is decided.\<close>

definition diff_commit :: "'x env \<Rightarrow> json \<Rightarrow> json \<Rightarrow> string \<Rightarrow> 'x world \<Rightarrow> error + bool" where
  "diff_commit E original_head_commit updated_head_commit current_head_commit s =
     (case
        (if original_head_commit \<noteq> JStr current_head_commit then
           (let current_diff_tree =
                  py_strip (os_popen E ''git diff-tree -r -c -M -C --no-commit-id HEAD'' s);
                original_diff_tree =
                  py_strip (os_popen E (''git diff-tree -r -c -M -C --no-commit-id '' @
                    py_str E original_head_commit) s);
                current_tree_commits = split_on (CHR 0x0A) current_diff_tree;
                original_tree_commits = split_on (CHR 0x0A) original_diff_tree
            in if length current_tree_commits = length original_tree_commits
               then commits_differ current_tree_commits original_tree_commits
               else Inr True)
         else Inr False)
      of
        Inl e \<Rightarrow> Inl e
      | Inr changed \<Rightarrow>
          Inr (if py_or updated_head_commit original_head_commit = JStr current_head_commit
               then False else changed))"

text \<open>The pair read from \<open>branch_info[k]\<close> when \<open>k in branch_info\<close>, two empty strings otherwise.\<close>

definition commit_pair :: "json \<Rightarrow> string \<Rightarrow> error + (json \<times> json)" where
  "commit_pair branch_info k =
     (case py_contains k branch_info of
        Inl e \<Rightarrow> Inl e
      | Inr False \<Rightarrow> Inr (JStr [], JStr [])
      | Inr True \<Rightarrow>
          (case py_getitem branch_info k of
             Inl e \<Rightarrow> Inl e
           | Inr sub \<Rightarrow>
               (case py_getitem sub ''parent_commit'' of
                  Inl e \<Rightarrow> Inl e
                | Inr parent_commit \<Rightarrow>
                    (case py_getitem sub ''head_commit'' of
                       Inl e \<Rightarrow> Inl e
                     | Inr head_commit \<Rightarrow> Inr (parent_commit, head_commit)))))"

text \<open>The text appended when \<open>diff_commit\<close> is true, and the line that is always appended.\<close>

definition my_diff_comment :: "'x env \<Rightarrow> string \<Rightarrow> json \<Rightarrow> json \<Rightarrow> string \<Rightarrow> bool \<Rightarrow> string" where
  "my_diff_comment E repo_name username recorded_head current_head_commit changed =
     (if changed then
        [CHR 0x0A, CHR 0x0A] @ ''View just my changes: https://github.com/'' @ repo_name @
        ''/compare/'' @ py_str E username @ '':'' @ py_str E recorded_head @ ''...'' @ current_head_commit
      else [])"

definition total_diff_comment :: "'x env \<Rightarrow> string \<Rightarrow> json \<Rightarrow> string \<Rightarrow> string" where
  "total_diff_comment E repo_name recorded_parent current_head_commit =
     [CHR 0x0A] @ ''View total diff: https://github.com/'' @ repo_name @ ''/compare/'' @
     py_str E recorded_parent @ ''...'' @ current_head_commit"

text \<open>The \<open>try\<close> block of \<open>close_pull_request\<close>: the comment it builds, or the exception.\<close>

definition close_try :: "'x env \<Rightarrow> string \<Rightarrow> int option \<Rightarrow> string option \<Rightarrow> (string, 'x) io" where
  "close_try E repo_name pull_request_ID comment s =
     (case json_files s (get_tmp_path E (''git-pull-request-treeish-'' @ id_str pull_request_ID)) of
        None \<Rightarrow> (Inl OSError, s)
      | Some Garbled \<Rightarrow> (Inl ValueError, s)
      | Some (Document branch_info) \<Rightarrow>
          (case py_getitem branch_info ''username'' of
             Inl e \<Rightarrow> (Inl e, s)
           | Inr username \<Rightarrow>
          (case commit_pair branch_info ''original'' of
             Inl e \<Rightarrow> (Inl e, s)
           | Inr (original_parent_commit, original_head_commit) \<Rightarrow>
          (case commit_pair branch_info ''updated'' of
             Inl e \<Rightarrow> (Inl e, s)
           | Inr (updated_parent_commit, updated_head_commit) \<Rightarrow>
          (let current_head_commit = take 10 (py_strip (os_popen E ''git rev-parse HEAD'' s)) in
           case diff_commit E original_head_commit updated_head_commit current_head_commit s of
             Inl e \<Rightarrow> (Inl e, s)
           | Inr changed \<Rightarrow>
               bindE (meta E (Some ''new_pr_url'') JNull) (\<lambda>new_pr_url.
                 returnE
                   ((case comment of None \<Rightarrow> [] | Some c \<Rightarrow> c) @
                    (if truthy new_pr_url \<and> new_pr_url \<noteq> JStr []
                     then [CHR 0x0A] @ ''Pull request submitted at: '' @ py_str E new_pr_url else []) @
                    my_diff_comment E repo_name username
                      (py_or updated_head_commit original_head_commit) current_head_commit changed @
                    total_diff_comment E repo_name
                      (py_or updated_parent_commit original_parent_commit) current_head_commit)) s)))))"

definition close_pull_request :: "'x env \<Rightarrow> string \<Rightarrow> int option \<Rightarrow> string option \<Rightarrow> (unit, 'x) io" where
  "close_pull_request E repo_name pull_request_ID comment0 s =
     (let default_comment = opt_close_default_comment E;
          comment = (if comment0 = None then default_comment else comment0);
          (comment, s1) =
            (if comment = None \<or> comment = default_comment then
               (case close_try E repo_name pull_request_ID comment s of
                  (Inl e, s') \<Rightarrow> (comment, s')
                | (Inr c, s') \<Rightarrow> (Some c, s'))
             else (comment, s))
      in bindE (case comment of
                  None \<Rightarrow> returnE ()
                | Some c \<Rightarrow>
                    (if c \<noteq> [] then bindE (post_comment E repo_name pull_request_ID c) (\<lambda>_. returnE ())
                     else returnE ()))
           (\<lambda>_. bindE (github_json_request E
                         (get_api_url (''repos/'' @ repo_name @ ''/pulls/'' @ id_str pull_request_ID))
                         (JObj [(''state'', JStr ''closed'')]))
                  (\<lambda>_. returnE ())) s1)"

subsection \<open>Listings in statements\<close>



definition record_path :: "'x env \<Rightarrow> int option \<Rightarrow> string" where
  "record_path E pull_request_ID =
     get_tmp_path E (''git-pull-request-treeish-'' @ id_str pull_request_ID)"

text \<open>
  \<open>unreadable f\<close>: there is no such file, or its content does not parse.
  \<open>close_requests\<close> is what \<open>close_pull_request\<close> does after its \<open>try\<close> block: it posts the
  comment unless there is none or it is empty, then sets the state of the pull request to
  closed.
\<close>

definition unreadable :: "contents option \<Rightarrow> bool" where
  "unreadable f = (f = None \<or> f = Some Garbled)"

definition close_requests :: "'x env \<Rightarrow> string \<Rightarrow> int option \<Rightarrow> string option \<Rightarrow> (unit, 'x) io" where
  "close_requests E repo_name pull_request_ID comment =
     bindE (case comment of
              None \<Rightarrow> returnE ()
            | Some c \<Rightarrow>
                (if c \<noteq> [] then bindE (post_comment E repo_name pull_request_ID c) (\<lambda>_. returnE ())
                 else returnE ()))
       (\<lambda>_. bindE (github_json_request E
                     (get_api_url (''repos/'' @ repo_name @ ''/pulls/'' @ id_str pull_request_ID))
                     (JObj [(''state'', JStr ''closed'')]))
              (\<lambda>_. returnE ()))"

section \<open>The work directory and the update cycle\<close>

text \<open>A step that cannot raise, as a computation.\<close>

definition liftS :: "('x world \<Rightarrow> 'a \<times> 'x world) \<Rightarrow> ('a, 'x) io" where
  "liftS f s = (case f s of (a, s') \<Rightarrow> (Inr a, s'))"

definition get_git_base_path :: "'x env \<Rightarrow> 'x world \<Rightarrow> string" where
  "get_git_base_path E s = py_strip (os_popen E ''git rev-parse --show-toplevel'' s)"

text \<open>
  \<open>get_work_dir\<close> computes the module-level \<open>_work_dir\<close> once: the directory configured for
  the current branch if it exists, else the \<open>work-dir\<close> option if that exists, else
  \<open>False\<close>.
\<close>

definition get_work_dir :: "'x env \<Rightarrow> 'x world \<Rightarrow> work_dir \<times> 'x world" where
  "get_work_dir E s =
     (case work_dir_cache s of
        Some w \<Rightarrow> (w, s)
      | None \<Rightarrow>
          (let symbolic_ref =
                 py_replace ''refs/heads/'' [] (py_strip (os_popen E ''git symbolic-ref HEAD'' s));
               work_dir_global = opt_work_dir E;
               work_dir_option =
                 (if symbolic_ref \<noteq> [] then Some (''work-dir-'' @ symbolic_ref) else None);
               configured =
                 (case work_dir_option of
                    None \<Rightarrow> None
                  | Some option_name \<Rightarrow>
                      Some (py_strip (os_popen E (''git config git-pull-request.'' @ option_name) s)));
               for_branch =
                 (case configured of
                    None \<Rightarrow> WFalse
                  | Some p \<Rightarrow>
                      (if p = [] \<or> \<not> path_exists E (cwd s) p (ext s) then WFalse else WPath p));
               result =
                 (case for_branch of
                    WPath p \<Rightarrow> WPath p
                  | WFalse \<Rightarrow>
                      (case work_dir_global of
                         None \<Rightarrow> WFalse
                       | Some g \<Rightarrow>
                           (if g \<noteq> [] \<and> path_exists E (cwd s) g (ext s) then WPath g else WFalse)))
           in (result, s\<lparr>work_dir_cache := Some result\<rparr>)))"

text \<open>\<open>if work_dir:\<close>\<close>

fun work_dir_set :: "work_dir \<Rightarrow> bool" where
  "work_dir_set WFalse = False"
| "work_dir_set (WPath p) = (p \<noteq> [])"

definition in_work_dir :: "'x env \<Rightarrow> 'x world \<Rightarrow> bool \<times> 'x world" where
  "in_work_dir E s =
     (let git_base_path = get_git_base_path E s;
          (work_dir, s') = get_work_dir E s
      in ((case work_dir of
             WFalse \<Rightarrow> False
           | WPath w \<Rightarrow>
               py_lower git_base_path = py_lower w
               \<and> path_islink E (cwd s') (path_join (path_join git_base_path ''.git'') ''config'') (ext s')),
          s'))"

text \<open>
  \<open>os.chdir\<close>. Paths are not normalised: the working directory becomes the path as given.
\<close>

definition os_chdir :: "'x env \<Rightarrow> pytext \<Rightarrow> (unit, 'x) io" where
  "os_chdir E p s =
     (if path_isdir E (cwd s) (path_of p) (ext s) then (Inr (), s\<lparr>cwd := path_of p\<rparr>)
      else (Inl OSError, s))"

text \<open>
  \<open>f = open(path, "wb"); f.write(data); f.close()\<close>. Opening creates the file or empties it.
  A file opened in binary mode takes \<open>bytes\<close>; given a \<open>str\<close>, \<open>write\<close> raises \<open>TypeError\<close>.
\<close>

definition write_binary :: "string \<Rightarrow> pytext \<Rightarrow> (unit, 'x) io" where
  "write_binary path data s =
     (case data of
        Bytes b \<Rightarrow> (Inr (), s\<lparr>raw_files := (raw_files s)(path \<mapsto> b)\<rparr>)
      | Str t \<Rightarrow> (Inl TypeError, s\<lparr>raw_files := (raw_files s)(path \<mapsto> [])\<rparr>))"

definition chdir :: "'x env \<Rightarrow> pytext \<Rightarrow> (unit, 'x) io" where
  "chdir E dir = write_binary (get_tmp_path E ''git-pull-request-chdir'') dir"

text \<open>
  \<open>get_original_dir_path\<close> reads the pointer file in binary mode, so what it reads is
  \<open>bytes\<close>, and \<open>bytes\<close> never equal the \<open>str\<close> \<open>""\<close>. With \<open>_work_dir\<close> \<open>False\<close>,
  \<open>os.path.join\<close> raises \<open>TypeError\<close>.
\<close>

definition get_original_dir_path :: "'x env \<Rightarrow> (pytext, 'x) io" where
  "get_original_dir_path E s =
     (let git_base_path = get_git_base_path E s;
          (work_dir, s1) = get_work_dir E s
      in case work_dir of
           WFalse \<Rightarrow> (Inl TypeError, s1)
         | WPath w \<Rightarrow>
             (case raw_files s1 (path_join (path_join w ''.git'') ''original_dir_path'') of
                None \<Rightarrow> (Inl OSError, s1)
              | Some content \<Rightarrow>
                  (let original_dir_path = Bytes content in
                   if original_dir_path = Str [] then
                     (case readlink E (cwd s1)
                             (path_join (path_join git_base_path ''.git'') ''config'') (ext s1) of
                        None \<Rightarrow> (Inl OSError, s1)
                      | Some config_path \<Rightarrow> (Inr (Str (py_dirname (py_dirname config_path))), s1))
                   else (Inr original_dir_path, s1))))"

definition resolve_and_continue :: string where
  "resolve_and_continue =
     ''Resolve conflicts and 'git add' files, then run 'gitpr continue-update'' @ [CHR 0x27]"

definition complete_update :: "'x env \<Rightarrow> string \<Rightarrow> (unit, 'x) io" where
  "complete_update E branch_name =
     (let update_branch_option = opt_update_branch E in
      bindE (liftS (in_work_dir E)) (\<lambda>inside.
      bindE
        (if inside then
           bindE (os_system E (''git checkout '' @ opt_str update_branch_option)) (\<lambda>ret.
             if ret \<noteq> 0 then
               raiseE (UserWarning (''Could not checkout '' @ opt_str update_branch_option @
                         '' branch in work directory''))
             else
               bindE (get_original_dir_path E) (\<lambda>original_dir_path.
               bindE (os_chdir E original_dir_path) (\<lambda>_.
               bindE (chdir E original_dir_path) (\<lambda>_.
               bindE (get_current_branch_name E False) (\<lambda>current.
                 if current = branch_name then
                   bindE (os_system E ''git reset --hard && git clean -f'') (\<lambda>ret.
                     if ret \<noteq> 0 then
                       raiseE (UserWarning (''Syncing branch '' @ branch_name @
                                 '' with work directory failed''))
                     else returnE ())
                 else
                   bindE (os_system E (''git checkout '' @ branch_name)) (\<lambda>ret.
                     if ret \<noteq> 0 then raiseE (UserWarning (''Could not checkout '' @ branch_name))
                     else returnE ()))))))
         else returnE ())
        (\<lambda>_. bindE (update_meta E) (\<lambda>branch_treeish. returnE ()))))"


definition update_branch :: "'x env \<Rightarrow> string \<Rightarrow> (unit, 'x) io" where
  "update_branch E branch_name =
     bindE (liftS (in_work_dir E)) (\<lambda>inside.
       if inside then
         raiseE (UserWarning (''Cannot perform an update from within the work directory.'' @
                   [CHR 0x0A] @ ''If you are done fixing conflicts run 'gitpr continue-update'' @
                   [CHR 0x27] @ '' to complete the update.''))
       else
         bindE (liftS (get_work_dir E)) (\<lambda>work_dir.
         bindE
           (case work_dir of
              WFalse \<Rightarrow> returnE ()
            | WPath w \<Rightarrow>
                (if w \<noteq> [] then
                   bindE (liftS (\<lambda>s. (Str (get_git_base_path E s), s))) (\<lambda>original_dir_path.
                   bindE (os_chdir E (Str w)) (\<lambda>_.
                   bindE (write_binary (path_join (path_join w ''.git'') ''original_dir_path'')
                            original_dir_path) (\<lambda>_.
                   bindE (os_system E ''git reset --hard && git clean -f'') (\<lambda>ret.
                     if ret \<noteq> 0 then
                       raiseE (UserWarning ''Cleaning up work directory failed, update not performed'')
                     else returnE ()))))
                 else returnE ()))
           (\<lambda>_.
              bindE (os_system E (''git checkout '' @ branch_name)) (\<lambda>ret.
                if ret \<noteq> 0 then
                  (if work_dir_set work_dir then
                     raiseE (UserWarning (''Could not checkout '' @ branch_name @
                               '' in the work directory, update not performed''))
                   else
                     raiseE (UserWarning (''Could not checkout '' @ branch_name @
                               '', update not performed'')))
                else
                  bindE (os_system E (''git '' @ opt_str (opt_update_method E) @ '' '' @
                                      opt_str (opt_update_branch E))) (\<lambda>ret.
                    if ret \<noteq> 0 then
                      bindE (if work_dir_set work_dir
                             then chdir E (Str (case work_dir of WPath w \<Rightarrow> w | WFalse \<Rightarrow> []))
                             else returnE ())
                        (\<lambda>_. raiseE (UserWarning (''Updating '' @ branch_name @ '' from '' @
                                        opt_str (opt_update_branch E) @ '' failed'' @ [CHR 0x0A] @
                                        resolve_and_continue)))
                    else complete_update E branch_name)))))"

subsection \<open>Commands run, in statements\<close>

text \<open>
  \<open>sys_commands evs\<close> are the command lines of the \<open>os.system\<close> calls in a history.
  \<open>only_runs P m\<close>: whatever the state, the commands that \<open>m\<close> adds to the history all
  satisfy \<open>P\<close>.
\<close>

fun sys_commands :: "event list \<Rightarrow> string list" where
  "sys_commands [] = []"
| "sys_commands (Sys d c # evs) = c # sys_commands evs"
| "sys_commands (ev # evs) = sys_commands evs"

definition only_runs :: "(string \<Rightarrow> bool) \<Rightarrow> ('a, 'x) io \<Rightarrow> bool" where
  "only_runs P m =
     (\<forall>s. \<exists>cs. sys_commands (trace (snd (m s))) = sys_commands (trace s) @ cs \<and> list_all P cs)"




section \<open>Commands\<close>

text \<open>
  Printing is left out of the commands, with one exception: \<open>display_pull_request\<close> reads
  fields of the response and can raise, so it stays as a step that returns or raises.
\<close>

definition display :: "'x env \<Rightarrow> json \<Rightarrow> (unit, 'x) io" where
  "display E pull_request =
     (case display_pull_request E pull_request of None \<Rightarrow> returnE () | Some e \<Rightarrow> raiseE e)"





section \<open>Submitting\<close>

text \<open>
  The loop of \<open>command_submit\<close> over the open pull requests of the target repository:
  every request of the default user with the head branch \<open>branch_name\<close> replaces
  \<open>pull_request\<close>.
\<close>

fun find_submitted :: "string \<Rightarrow> string \<Rightarrow> json \<Rightarrow> json list \<Rightarrow> error + json" where
  "find_submitted user branch_name pull_request [] = Inr pull_request"
| "find_submitted user branch_name pull_request (pr # prs) =
     (case py_get pr ''user'' of
        Inl e \<Rightarrow> Inl e
      | Inr u \<Rightarrow>
          (case py_get u ''login'' of
             Inl e \<Rightarrow> Inl e
           | Inr login \<Rightarrow>
               (if login = JStr user then
                  (case py_get pr ''head'' of
                     Inl e \<Rightarrow> Inl e
                   | Inr h \<Rightarrow>
                       (case py_get h ''ref'' of
                          Inl e \<Rightarrow> Inl e
                        | Inr r \<Rightarrow>
                            find_submitted user branch_name
                              (if r = JStr branch_name then pr else pull_request) prs))
                else find_submitted user branch_name pull_request prs)))"

text \<open>
  The part of \<open>command_submit\<close> from the creation request on. \<open>msg\<close> is bound only when the
  request raised: \<open>raise msg\<close> after a request that returned a false value raises
  \<open>UnboundLocalError\<close>.
\<close>

definition command_submit_request ::
  "'x env \<Rightarrow> string \<Rightarrow> json \<Rightarrow> string \<Rightarrow> string \<Rightarrow> (json, 'x) io" where
  "command_submit_request E url params reviewer_repo_name branch_name s =
     (case github_json_request E url params s of
        (r, s1) \<Rightarrow>
          (let pull_request = (case r of Inr j \<Rightarrow> j | Inl e \<Rightarrow> JNull);
               msg = (case r of Inl e \<Rightarrow> Some e | Inr j \<Rightarrow> None)
           in bindE
                (if \<not> truthy pull_request then
                   bindE (get_pull_requests E reviewer_repo_name True) (\<lambda>reviewer_pulls.
                     case py_iter reviewer_pulls of
                       Inl e \<Rightarrow> raiseE e
                     | Inr prs \<Rightarrow>
                         (case find_submitted (default_username E) branch_name pull_request prs of
                            Inl e \<Rightarrow> raiseE e
                          | Inr found \<Rightarrow> returnE found))
                 else returnE pull_request)
                (\<lambda>pull_request.
                   if \<not> truthy pull_request then
                     (case msg of Some e \<Rightarrow> raiseE e | None \<Rightarrow> raiseE UnboundLocalError)
                   else
                     bindE (case py_get pull_request ''html_url'' of
                              Inl e \<Rightarrow> raiseE e
                            | Inr u \<Rightarrow> returnE u) (\<lambda>new_pr_url.
                     bindE (if truthy new_pr_url \<and> new_pr_url \<noteq> JStr []
                            then bindE (meta E (Some ''new_pr_url'') new_pr_url) (\<lambda>_. returnE ())
                            else returnE ()) (\<lambda>_.
                     bindE (display E pull_request) (\<lambda>_. returnE pull_request)))) s1))"

section \<open>A concrete run\<close>

text \<open>
  An environment and a state to evaluate the model on. The external state is the name of
  the checked-out branch; every command succeeds and every request fails in transport.
\<close>

definition example_env :: "string env" where
  "example_env =
     \<lparr>system_call = (\<lambda>d c x. (0, x)),
      popen_read = (\<lambda>d c x.
        if c = ''git rev-parse --abbrev-ref HEAD'' then x @ [CHR 0x0A]
        else if c = ''git rev-parse HEAD'' then ''aaaaaaaaaabbbbbbbbbbcccccccccc'' @ [CHR 0x0A]
        else ''ddddddddddeeeeeeeeee'' @ [CHR 0x0A]),
      http_send = (\<lambda>m u b x. (Transport_failure, x)),
      path_exists = (\<lambda>d p x. False),
      path_isdir = (\<lambda>d p x. False),
      path_islink = (\<lambda>d p x. False),
      readlink = (\<lambda>d p x. None),
      display_pull_request = (\<lambda>j. None),
      render = (\<lambda>j. ''?''),
      tmp_dir = ''/tmp'',
      debug = False,
      default_username = ''me'',
      opt_update_branch = Some ''master'',
      opt_update_method = Some ''merge'',
      opt_work_dir = None,
      opt_close_default_comment = None,
      opt_merge_auto_close = True\<rparr>"

definition example_world :: "string world" where
  "example_world =
     \<lparr>ext = ''pull-request-42-JIRA-99'', cwd = ''/repo'', json_files = Map.empty,
      raw_files = Map.empty, work_dir_cache = None, trace = []\<rparr>"

definition example_pull_request :: pull_request where
  "example_pull_request =
     \<lparr>number = 42, head_ref = ''JIRA-99-fix'', head_sha = ''0123456789abcdef'',
      base_sha = ''fedcba9876543210'', title = ''Fix it'', user_login = ''alice''\<rparr>"

definition example_record :: json where
  "example_record =
     JObj [(''username'', JStr ''alice''),
           (''original'', JObj [(''parent_commit'', JStr ''fedcba9876''),
                                (''head_commit'', JStr ''0123456789'')])]"

text \<open>The state after pull request 42 has been fetched.\<close>

definition example_fetched :: "string world" where
  "example_fetched =
     example_world\<lparr>json_files := [''/tmp/git-pull-request-treeish-42'' \<mapsto> Document example_record]\<rparr>"







text \<open>
  A repository at \<open>/repo\<close> with the work directory \<open>/work\<close> configured in the \<open>work-dir\<close>
  option; no work directory is configured for the branch.
\<close>

definition example_env_work_dir :: "string env" where
  "example_env_work_dir =
     example_env\<lparr>
       popen_read := (\<lambda>d c x.
         if c = ''git rev-parse --abbrev-ref HEAD'' then x @ [CHR 0x0A]
         else if c = ''git rev-parse --show-toplevel'' then d @ [CHR 0x0A]
         else if c = ''git symbolic-ref HEAD'' then ''refs/heads/'' @ x @ [CHR 0x0A]
         else if take 10 c = ''git config'' then []
         else ''ddddddddddeeeeeeeeee'' @ [CHR 0x0A]),
       path_exists := (\<lambda>d p x. p = ''/work''),
       path_isdir := (\<lambda>d p x. p = ''/work'' \<or> p = ''/repo''),
       opt_work_dir := Some ''/work''\<rparr>"


text \<open>
  A service on which the creation request fails in transport although the pull request was
  created: the list of open requests shows it.
\<close>

definition example_created :: json where
  "example_created =
     JObj [(''number'', JNum 7),
           (''html_url'', JStr ''https://example.org/pull/7''),
           (''user'', JObj [(''login'', JStr ''me'')]),
           (''head'', JObj [(''ref'', JStr ''pull-request-42-JIRA-99'')]),
           (''base'', JObj [(''ref'', JStr ''master'')])]"

definition example_env_created :: "string env" where
  "example_env_created =
     example_env\<lparr>http_send :=
       (\<lambda>m u b x. if m = ''GET'' then (Response 200 (Json_body (JArr [example_created])), x)
                   else (Transport_failure, x))\<rparr>"

section \<open>Decimal rendering and the branch-name round trip\<close>

lemma is_digit_digit_char: "k < 10 \<Longrightarrow> is_digit (digit_char k)"
  by (simp add: is_digit_def digit_char_def)

lemma digit_val_digit_char: "k < 10 \<Longrightarrow> digit_val (digit_char k) = k"
  by (simp add: digit_val_def digit_char_def)

lemma str_nat_all_digits: "list_all is_digit (str_nat n)"
proof (induction n rule: str_nat.induct)
  case (1 n)
  show ?case
  proof (cases "n < 10")
    case True
    then show ?thesis by (simp add: str_nat.simps[of n] is_digit_digit_char)
  next
    case False
    with 1 show ?thesis by (simp add: str_nat.simps[of n] is_digit_digit_char)
  qed
qed

lemma str_nat_nonempty: "str_nat n \<noteq> []"
  by (subst str_nat.simps) simp

lemma foldl_digits_str_nat: "foldl (\<lambda>a c. 10 * a + digit_val c) 0 (str_nat n) = n"
proof (induction n rule: str_nat.induct)
  case (1 n)
  show ?case
  proof (cases "n < 10")
    case True
    then show ?thesis by (simp add: str_nat.simps[of n] digit_val_digit_char)
  next
    case False
    with 1 show ?thesis by (simp add: str_nat.simps[of n] digit_val_digit_char)
  qed
qed

lemma int_of_digits_str_int: "0 \<le> i \<Longrightarrow> int_of_digits (str_int i) = i"
  by (simp add: int_of_digits_def str_int_def foldl_digits_str_nat)

lemma takeWhile_digits_stop:
  assumes "list_all is_digit ds" and "rest = [] \<or> \<not> is_digit (hd rest)"
  shows "takeWhile is_digit (ds @ rest) = ds"
  using assms by (cases rest) (auto simp: list_all_iff takeWhile_append)

lemma not_digit_hyphen: "\<not> is_digit CHR ''-''"
  by (simp add: is_digit_def)

lemma search_pull_request_id_built:
  assumes "0 \<le> i" and "rest = [] \<or> \<not> is_digit (hd rest)"
  shows "search_pull_request_id (''pull-request-'' @ str_int i @ rest) = Some (str_int i)"
proof -
  have s: "str_int i = str_nat (nat i)" using assms(1) by (simp add: str_int_def)
  have t: "takeWhile is_digit (str_int i @ rest) = str_int i"
    unfolding s using assms(2) by (rule takeWhile_digits_stop[OF str_nat_all_digits])
  have n: "str_int i \<noteq> []" unfolding s by (rule str_nat_nonempty)
  show ?thesis
    by (simp add: search_pull_request_id_def t n)
qed

lemma get_pull_request_ID_built:
  assumes "0 \<le> i" and "rest = [] \<or> \<not> is_digit (hd rest)"
  shows "get_pull_request_ID (''pull-request-'' @ str_int i @ rest) = Some i"
proof -
  have n: "str_int i \<noteq> []" using assms(1) by (simp add: str_int_def str_nat_nonempty)
  show ?thesis
    unfolding get_pull_request_ID_def search_pull_request_id_built[OF assms]
    using n by (simp add: int_of_digits_str_int[OF assms(1)])
qed

lemma build_branch_name_shape:
  "\<exists>rest. build_branch_name pr = ''pull-request-'' @ str_int (number pr) @ rest
     \<and> (rest = [] \<or> \<not> is_digit (hd rest))"
  by (simp add: build_branch_name_def Let_def not_digit_hyphen)

text \<open>
  Claim C2. For every positive pull-request number and any head ref and title, the number
  recovered by \<open>get_pull_request_ID\<close> from the branch name that \<open>build_branch_name\<close>
  builds is that number: the digits right after the prefix \<open>pull-request-\<close> are read, and a
  ticket suffix, which starts with a hyphen, is not.
\<close>

theorem branch_name_id_roundtrip:
  assumes "0 < number pr"
  shows "get_pull_request_ID (build_branch_name pr) = Some (number pr)"
proof -
  obtain rest where r: "build_branch_name pr = ''pull-request-'' @ str_int (number pr) @ rest"
    and d: "rest = [] \<or> \<not> is_digit (hd rest)"
    using build_branch_name_shape by blast
  from assms have "0 \<le> number pr" by simp
  then show ?thesis unfolding r using d by (rule get_pull_request_ID_built)
qed

theorem branch_name_id_roundtrip_witness:
  "(0::int) < 42 \<and>
   get_pull_request_ID (build_branch_name \<lparr>number = 42, head_ref = ''JIRA-99-fix'',
     head_sha = ''0123456789abcdef'', base_sha = ''fedcba9876543210'', title = ''Fix it'',
     user_login = ''alice''\<rparr>) = Some 42"
  using branch_name_id_roundtrip [of "\<lparr>number = 42, head_ref = ''JIRA-99-fix'',
     head_sha = ''0123456789abcdef'', base_sha = ''fedcba9876543210'', title = ''Fix it'',
     user_login = ''alice''\<rparr>"]
  by simp

section \<open>Ticket extraction finds the first match\<close>














lemma first_ticket_unique:
  assumes "first_ticket text t" and "first_ticket text t'"
  shows "t = t'"
proof -
  from assms(1) obtain i where i: "ticket_at text i t"
    "\<forall>j s. ticket_at text j s \<longrightarrow> i < j \<or> (i = j \<and> length s \<le> length t)"
    unfolding first_ticket_def by blast
  from assms(2) obtain k where k: "ticket_at text k t'"
    "\<forall>j s. ticket_at text j s \<longrightarrow> k < j \<or> (k = j \<and> length s \<le> length t')"
    unfolding first_ticket_def by blast
  from i(2) k(1) have a: "i < k \<or> (i = k \<and> length t' \<le> length t)" by blast
  from k(2) i(1) have b: "k < i \<or> (k = i \<and> length t \<le> length t')" by blast
  from a b have e: "i = k" "length t = length t'" by auto
  from i(1) k(1) e show ?thesis by (simp add: ticket_at_def)
qed





section \<open>The metadata store: what a write changes\<close>

lemma bindE_simps [simp]:
  "bindE (returnE a) f s = f a s"
  "bindE (raiseE e) f s = (Inl e, s)"
  by (simp_all add: bindE_def returnE_def raiseE_def)

lemma split_on_no_sep: "c \<notin> set k \<Longrightarrow> split_on c k = [k]"
  by (induction k) auto


lemma get_current_branch_name_False:
  "get_current_branch_name E False s = (Inr (py_strip (os_popen E ''git rev-parse --abbrev-ref HEAD'' s)), s)"
  by (simp add: get_current_branch_name_def)

lemma meta_try_single_write:
  assumes "CHR ''.'' \<notin> set key" and "value \<noteq> JNull"
  shows "meta_try (Some key) value f =
     (case f of
        None \<Rightarrow> Inl (OSError, Some key)
      | Some Garbled \<Rightarrow> Inl (ValueError, Some key)
      | Some (Document (JObj kvs)) \<Rightarrow> Inr (value, Some (JObj (AList.update key value kvs)))
      | Some (Document _) \<Rightarrow> Inl (TypeError, Some key))"
  using assms
  by (simp add: meta_try_def split_on_no_sep split: option.splits contents.splits json.splits)

lemma meta_single_write_files:
  assumes "CHR ''.'' \<notin> set key" and "value \<noteq> JNull"
  shows "json_files (snd (meta E (Some key) value s)) =
     (case branch_path E s of
        None \<Rightarrow> json_files s
      | Some p \<Rightarrow>
          (case json_files s p of
             Some (Document (JObj kvs)) \<Rightarrow> (json_files s)(p \<mapsto> Document (JObj (AList.update key value kvs)))
           | _ \<Rightarrow> json_files s))"
  by (simp add: meta_def get_current_branch_name_False branch_path_def meta_try_single_write[OF assms]
        log_def bindE_def returnE_def
      split: option.splits contents.splits json.splits)

lemma map_of_update_other: "k' \<noteq> k \<Longrightarrow> map_of (AList.update k v kvs) k' = map_of kvs k'"
  by (simp add: update_conv')

lemma meta_single_write_frame:
  assumes "CHR ''.'' \<notin> set key" and "value \<noteq> JNull" and "k' \<noteq> key"
  shows "record_field (json_files (snd (meta E (Some key) value s)) p) k' = record_field (json_files s p) k'"
  unfolding meta_single_write_files[OF assms(1,2)]
  using assms(3)
  by (auto simp: map_of_update_other split: option.splits contents.splits json.splits)

lemma snd_bindE_returnE: "snd (bindE m (\<lambda>a. returnE (g a)) s) = snd (m s)"
  by (simp add: bindE_def returnE_def split: prod.splits sum.splits)

lemma update_meta_snd:
  "snd (update_meta E s) =
     (if take 13 (py_strip (os_popen E ''git rev-parse --abbrev-ref HEAD'' s)) \<noteq> ''pull-request-'' then s
      else snd (meta E (Some ''updated'')
       (JObj [(''parent_commit'', JStr (take 10 (py_strip (os_popen E
                 (''git merge-base '' @ opt_str (opt_update_branch E) @ '' '' @
                    py_strip (os_popen E ''git rev-parse --abbrev-ref HEAD'' s)) s)))),
              (''head_commit'', JStr (take 10 (py_strip (os_popen E ''git rev-parse HEAD'' s))))]) s))"
proof (cases "take 13 (py_strip (os_popen E ''git rev-parse --abbrev-ref HEAD'' s)) \<noteq> ''pull-request-''")
  case True
  then show ?thesis
    by (simp add: update_meta_def bindE_def get_current_branch_name_def)
next
  case False
  then have g: "get_current_branch_name E True s =
      (Inr (py_strip (os_popen E ''git rev-parse --abbrev-ref HEAD'' s)), s)"
    by (simp add: get_current_branch_name_def)
  have "snd (update_meta E s) = snd (bindE (meta E (Some ''updated'')
       (JObj [(''parent_commit'', JStr (take 10 (py_strip (os_popen E
                 (''git merge-base '' @ opt_str (opt_update_branch E) @ '' '' @
                    py_strip (os_popen E ''git rev-parse --abbrev-ref HEAD'' s)) s)))),
              (''head_commit'', JStr (take 10 (py_strip (os_popen E ''git rev-parse HEAD'' s))))]))
        (\<lambda>_. returnE (if take 10 (py_strip (os_popen E
                 (''git merge-base '' @ opt_str (opt_update_branch E) @ '' '' @
                    py_strip (os_popen E ''git rev-parse --abbrev-ref HEAD'' s)) s)) =
                  take 10 (py_strip (os_popen E ''git rev-parse HEAD'' s))
             then take 10 (py_strip (os_popen E ''git rev-parse HEAD'' s))
             else take 10 (py_strip (os_popen E
                 (''git merge-base '' @ opt_str (opt_update_branch E) @ '' '' @
                    py_strip (os_popen E ''git rev-parse --abbrev-ref HEAD'' s)) s)) @ ''..'' @
                  take 10 (py_strip (os_popen E ''git rev-parse HEAD'' s)))) s)"
    unfolding update_meta_def by (simp add: bindE_def[of "get_current_branch_name E True"] g Let_def)
  also have "\<dots> = snd (meta E (Some ''updated'')
       (JObj [(''parent_commit'', JStr (take 10 (py_strip (os_popen E
                 (''git merge-base '' @ opt_str (opt_update_branch E) @ '' '' @
                    py_strip (os_popen E ''git rev-parse --abbrev-ref HEAD'' s)) s)))),
              (''head_commit'', JStr (take 10 (py_strip (os_popen E ''git rev-parse HEAD'' s))))]) s)"
    by (rule snd_bindE_returnE)
  finally show ?thesis using False by simp
qed

lemma update_meta_frame:
  assumes "k' \<noteq> ''updated''"
  shows "record_field (json_files (snd (update_meta E s)) p) k' = record_field (json_files s p) k'"
proof -
  have nd: "CHR ''.'' \<notin> set ''updated''" by simp
  have nn: "JObj kvs \<noteq> JNull" for kvs by simp
  show ?thesis
    unfolding update_meta_snd
    by (simp add: meta_single_write_frame[OF nd nn assms])
qed

lemma updates_frame:
  assumes "k' \<noteq> ''updated''"
  shows "record_field (json_files (updates E ys s) p) k' = record_field (json_files s p) k'"
proof (induction ys arbitrary: s)
  case Nil
  show ?case by simp
next
  case (Cons y ys)
  obtain x d where y: "y = (x, d)" by (cases y)
  show ?case
    unfolding y by (simp add: Cons.IH update_meta_frame[OF assms])
qed

lemma update_meta_on_branch:
  assumes "take 13 (py_strip (os_popen E ''git rev-parse --abbrev-ref HEAD'' s)) = ''pull-request-''"
  shows "snd (update_meta E s) =
     snd (meta E (Some ''updated'')
       (JObj [(''parent_commit'', JStr (take 10 (py_strip (os_popen E
                 (''git merge-base '' @ opt_str (opt_update_branch E) @ '' '' @
                    py_strip (os_popen E ''git rev-parse --abbrev-ref HEAD'' s)) s)))),
              (''head_commit'', JStr (take 10 (py_strip (os_popen E ''git rev-parse HEAD'' s))))]) s)"
  unfolding update_meta_snd using assms by simp

lemma get_pull_request_ID_prefix:
  "get_pull_request_ID b = Some n \<Longrightarrow> take 13 b = ''pull-request-''"
  by (auto simp: get_pull_request_ID_def search_pull_request_id_def split: option.splits if_splits)

lemma split_original_parent: "split_on CHR ''.'' ''original.parent_commit'' = [''original'', ''parent_commit'']"
  by simp

lemma split_original_head: "split_on CHR ''.'' ''original.head_commit'' = [''original'', ''head_commit'']"
  by simp

lemma meta_on_branch:
  assumes "branch_path E s = Some p"
  shows "meta E key value s =
     (case meta_try key value (json_files s p) of
        Inr (val, None) \<Rightarrow> (Inr val, s)
      | Inr (val, Some d) \<Rightarrow> (Inr val, s\<lparr>json_files := (json_files s)(p \<mapsto> Document d)\<rparr>)
      | Inl (e, key_now) \<Rightarrow>
          (Inr JNull, s\<lparr>trace := trace s @
             [Dumped (''Could not update '%s' with '%s'' @ [CHR 0x27]) [key_json key_now, value],
              Printed ''/---'']\<rparr>))"
proof -
  from assms obtain n where n: "get_pull_request_ID (py_strip (os_popen E ''git rev-parse --abbrev-ref HEAD'' s)) = Some n"
    and p: "p = get_tmp_path E (''git-pull-request-treeish-'' @ str_int n)"
    by (auto simp: branch_path_def split: option.splits)
  show ?thesis
    unfolding meta_def get_current_branch_name_False p
    by (simp add: n Let_def log_def bindE_def returnE_def
        split: sum.splits prod.splits option.splits)
qed

lemma meta_off_branch:
  assumes "branch_path E s = None"
  shows "meta E key value s = (Inr JNull, s)"
proof -
  from assms have "get_pull_request_ID (py_strip (os_popen E ''git rev-parse --abbrev-ref HEAD'' s)) = None"
    by (auto simp: branch_path_def split: option.splits)
  then show ?thesis
    unfolding meta_def get_current_branch_name_False by simp
qed

lemma meta_try_read_whole: "meta_try None JNull (Some (Document doc)) = Inr (doc, None)"
  by (simp add: meta_try_def)

lemma meta_try_read_nested:
  "meta_try (Some ''original.parent_commit'') JNull
      (Some (Document (JObj [(''username'', u),
         (''original'', JObj [(''parent_commit'', a), (''head_commit'', b)])]))) = Inr (a, None)"
  "meta_try (Some ''original.head_commit'') JNull
      (Some (Document (JObj [(''username'', u),
         (''original'', JObj [(''parent_commit'', a), (''head_commit'', b)])]))) = Inr (b, None)"
  by (simp_all add: meta_try_def)

section \<open>The record round trip\<close>

text \<open>
  Claim C1. Let the record of pull request \<open>n\<close> be created at fetch time from the commit
  SHAs \<open>base_sha\<close> and \<open>head_sha\<close>, and let the branch of that pull request be checked out
  afterwards. Reading the record back gives \<open>original.parent_commit\<close> and
  \<open>original.head_commit\<close> equal to the first ten characters of the two SHAs. An update then
  adds \<open>updated\<close>, the pair of short commits computed at that time, and leaves \<open>username\<close>
  and \<open>original\<close> as first written; so does every later update.
\<close>

theorem metadata_record_roundtrip:
  fixes E :: "'x env" and s :: "'x world" and pr :: pull_request and n :: int and d x ys
  assumes "0 < n"
    and "get_pull_request_ID (py_strip (popen_read E d ''git rev-parse --abbrev-ref HEAD'' x)) = Some n"
  defines "rec_path \<equiv> get_tmp_path E (''git-pull-request-treeish-'' @ str_int n)"
    and "original \<equiv> JObj [(''parent_commit'', JStr (take 10 (base_sha pr))),
                            (''head_commit'', JStr (take 10 (head_sha pr)))]"
    and "s1 \<equiv> (snd (command_fetch_store E pr (str_int n) s))\<lparr>ext := x, cwd := d\<rparr>"
    and "branch_name \<equiv> py_strip (popen_read E d ''git rev-parse --abbrev-ref HEAD'' x)"
  defines "p2 \<equiv> take 10 (py_strip (popen_read E d
                    (''git merge-base '' @ opt_str (opt_update_branch E) @ '' '' @ branch_name) x))"
    and "h2 \<equiv> take 10 (py_strip (popen_read E d ''git rev-parse HEAD'' x))"
    and "s2 \<equiv> snd (update_meta E s1)"
  shows "fst (meta E None JNull s1) =
           Inr (JObj [(''username'', JStr (user_login pr)), (''original'', original)])
       \<and> fst (meta E (Some ''original.parent_commit'') JNull s1) = Inr (JStr (take 10 (base_sha pr)))
       \<and> fst (meta E (Some ''original.head_commit'') JNull s1) = Inr (JStr (take 10 (head_sha pr)))
       \<and> json_files s2 rec_path =
           Some (Document (JObj [(''username'', JStr (user_login pr)), (''original'', original),
                   (''updated'', JObj [(''parent_commit'', JStr p2), (''head_commit'', JStr h2)])]))
       \<and> record_field (json_files (updates E ys s2) rec_path) ''original'' = Some original
       \<and> record_field (json_files (updates E ys s2) rec_path) ''username'' = Some (JStr (user_login pr))"
proof -
  let ?doc = "JObj [(''username'', JStr (user_login pr)), (''original'', original)]"
  have o1: "os_popen E c s1 = popen_read E d c x" for c
    by (simp add: os_popen_def s1_def command_fetch_store_def Let_def)
  have b: "py_strip (os_popen E ''git rev-parse --abbrev-ref HEAD'' s1) = branch_name"
    unfolding o1 branch_name_def ..
  have f1: "json_files s1 rec_path = Some (Document ?doc)"
    by (simp add: s1_def command_fetch_store_def Let_def rec_path_def original_def)
  have id: "get_pull_request_ID branch_name = Some n"
    using assms(2) by (simp add: branch_name_def)
  have bp: "branch_path E s1 = Some rec_path"
    unfolding branch_path_def b id rec_path_def by simp
  have r0: "fst (meta E None JNull s1) = Inr ?doc"
    unfolding meta_on_branch[OF bp] f1 meta_try_read_whole by simp
  have r1: "fst (meta E (Some ''original.parent_commit'') JNull s1) = Inr (JStr (take 10 (base_sha pr)))"
    unfolding meta_on_branch[OF bp] f1 original_def meta_try_read_nested by simp
  have r2: "fst (meta E (Some ''original.head_commit'') JNull s1) = Inr (JStr (take 10 (head_sha pr)))"
    unfolding meta_on_branch[OF bp] f1 original_def meta_try_read_nested by simp
  have pre: "take 13 (py_strip (os_popen E ''git rev-parse --abbrev-ref HEAD'' s1)) = ''pull-request-''"
    unfolding b using id by (rule get_pull_request_ID_prefix)
  have nd: "CHR ''.'' \<notin> set ''updated''" by simp
  have nn: "JObj kvs \<noteq> JNull" for kvs by simp
  have upd: "AList.update ''updated'' v [(''username'', u), (''original'', original)] =
      [(''username'', u), (''original'', original), (''updated'', v)]" for u v
    by simp
  have f2: "json_files s2 rec_path =
           Some (Document (JObj [(''username'', JStr (user_login pr)), (''original'', original),
                   (''updated'', JObj [(''parent_commit'', JStr p2), (''head_commit'', JStr h2)])]))"
    unfolding s2_def update_meta_on_branch[OF pre] meta_single_write_files[OF nd nn] bp
    unfolding b o1
    by (simp add: f1 upd p2_def h2_def branch_name_def)
  have k1: "''original'' \<noteq> ''updated''" and k2: "''username'' \<noteq> ''updated''"
    by simp_all
  have f3: "record_field (json_files (updates E ys s2) rec_path) ''original'' = Some original"
    unfolding updates_frame[OF k1] f2 by simp
  have f4: "record_field (json_files (updates E ys s2) rec_path) ''username'' = Some (JStr (user_login pr))"
    unfolding updates_frame[OF k2] f2 by simp
  show ?thesis
    apply (intro conjI)
         apply (rule r0)
        apply (rule r1)
       apply (rule r2)
      apply (rule f2)
     apply (rule f3)
    apply (rule f4)
    done
qed

lemma example_branch_id:
  "get_pull_request_ID
     (py_strip (popen_read example_env ''/repo'' ''git rev-parse --abbrev-ref HEAD''
        ''pull-request-42-JIRA-99'')) = Some 42"
  by code_simp

theorem metadata_record_roundtrip_witness:
  "(0::int) < 42 \<and>
   get_pull_request_ID
     (py_strip (popen_read example_env ''/repo'' ''git rev-parse --abbrev-ref HEAD''
        ''pull-request-42-JIRA-99'')) = Some 42 \<and>
   fst (meta example_env (Some ''original.head_commit'') JNull
     ((snd (command_fetch_store example_env example_pull_request (str_int 42) example_world))
        \<lparr>ext := ''pull-request-42-JIRA-99'', cwd := ''/repo''\<rparr>)) = Inr (JStr ''0123456789'')"
  using metadata_record_roundtrip [where E = example_env and s = example_world and n = 42
      and pr = example_pull_request and d = "''/repo''" and x = "''pull-request-42-JIRA-99''"
      and ys = "[]", OF _ example_branch_id]
  by (simp add: example_branch_id example_pull_request_def)

section \<open>A write to a top-level key leaves the other fields alone\<close>

text \<open>
  Claim C10. A write through \<open>meta\<close> with a key that has no dot and a value other than
  \<open>None\<close> dumps the whole record again with that one key set: every other top-level field
  of every record file reads as before. The file of the current branch becomes the old
  document with the key updated; no other file changes. In particular \<open>update_meta\<close>, which
  writes the key \<open>updated\<close>, keeps \<open>username\<close> and \<open>original\<close>, and so does the write of
  \<open>new_pr_url\<close>.
\<close>

theorem meta_single_key_write_frame:
  assumes "CHR ''.'' \<notin> set key" and "value \<noteq> JNull"
  shows "(\<forall>p kvs. branch_path E s = Some p \<and> json_files s p = Some (Document (JObj kvs)) \<longrightarrow>
            json_files (snd (meta E (Some key) value s)) p =
              Some (Document (JObj (AList.update key value kvs))))
       \<and> (\<forall>p. branch_path E s \<noteq> Some p \<longrightarrow>
            json_files (snd (meta E (Some key) value s)) p = json_files s p)
       \<and> (\<forall>p k'. k' \<noteq> key \<longrightarrow>
            record_field (json_files (snd (meta E (Some key) value s)) p) k' =
              record_field (json_files s p) k')
       \<and> (\<forall>p k'. k' \<noteq> ''updated'' \<longrightarrow>
            record_field (json_files (snd (update_meta E s)) p) k' = record_field (json_files s p) k')"
proof (intro conjI allI impI)
  fix p kvs
  assume "branch_path E s = Some p \<and> json_files s p = Some (Document (JObj kvs))"
  then show "json_files (snd (meta E (Some key) value s)) p =
      Some (Document (JObj (AList.update key value kvs)))"
    unfolding meta_single_write_files[OF assms] by simp
next
  fix p
  assume "branch_path E s \<noteq> Some p"
  then show "json_files (snd (meta E (Some key) value s)) p = json_files s p"
    unfolding meta_single_write_files[OF assms]
    by (auto split: option.splits contents.splits json.splits)
next
  fix p k'
  assume "k' \<noteq> key"
  then show "record_field (json_files (snd (meta E (Some key) value s)) p) k' =
      record_field (json_files s p) k'"
    by (rule meta_single_write_frame[OF assms])
next
  fix p k' :: string
  assume "k' \<noteq> ''updated''"
  then show "record_field (json_files (snd (update_meta E s)) p) k' = record_field (json_files s p) k'"
    by (rule update_meta_frame)
qed

lemma example_fetched_branch_path:
  "branch_path example_env example_fetched = Some ''/tmp/git-pull-request-treeish-42''"
  by code_simp

theorem meta_single_key_write_frame_witness:
  "CHR ''.'' \<notin> set ''new_pr_url'' \<and> JStr ''https://example.org/pull/7'' \<noteq> JNull \<and>
   branch_path example_env example_fetched = Some ''/tmp/git-pull-request-treeish-42'' \<and>
   json_files (snd (meta example_env (Some ''new_pr_url'') (JStr ''https://example.org/pull/7'')
        example_fetched)) ''/tmp/git-pull-request-treeish-42'' =
     Some (Document (JObj [(''username'', JStr ''alice''),
        (''original'', JObj [(''parent_commit'', JStr ''fedcba9876''), (''head_commit'', JStr ''0123456789'')]),
        (''new_pr_url'', JStr ''https://example.org/pull/7'')]))"
proof -
  have a: "CHR ''.'' \<notin> set ''new_pr_url''" by simp
  have b: "JStr ''https://example.org/pull/7'' \<noteq> JNull" by simp
  have f: "json_files example_fetched ''/tmp/git-pull-request-treeish-42'' =
      Some (Document (JObj [(''username'', JStr ''alice''),
        (''original'', JObj [(''parent_commit'', JStr ''fedcba9876''), (''head_commit'', JStr ''0123456789'')])]))"
    by (simp add: example_fetched_def example_record_def)
  show ?thesis
    using meta_single_key_write_frame [OF a b, of example_env example_fetched]
      example_fetched_branch_path f
    by simp
qed

section \<open>The diff-change classification at close\<close>









section \<open>A record that cannot be read\<close>

lemma close_try_unreadable:
  assumes "unreadable (json_files s (record_path E pull_request_ID))"
  shows "\<exists>e. close_try E repo_name pull_request_ID comment s = (Inl e, s)"
  using assms
  by (auto simp: close_try_def unreadable_def record_path_def)

lemma close_pull_request_unreadable:
  assumes "unreadable (json_files s (record_path E pull_request_ID))"
  shows "close_pull_request E repo_name pull_request_ID comment0 s =
     close_requests E repo_name pull_request_ID
       (if comment0 = None then opt_close_default_comment E else comment0) s"
proof -
  obtain e where e: "close_try E repo_name pull_request_ID
      (if comment0 = None then opt_close_default_comment E else comment0) s = (Inl e, s)"
    using close_try_unreadable[OF assms] by blast
  show ?thesis
    unfolding close_pull_request_def close_requests_def Let_def
    by (simp add: e)
qed

lemma meta_try_unreadable:
  assumes "unreadable f"
  shows "\<exists>e. meta_try key value f = Inl (e, key)"
  using assms by (auto simp: meta_try_def unreadable_def)

text \<open>
  Claim C8, as the code has it. Let a record file be missing or unparsable. If it is the
  file of the current branch, \<open>meta\<close> returns \<open>None\<close> without raising, writes no file, and
  logs the failure: \<open>log\<close> prints whatever the debug setting is. If the current branch has
  no ID, \<open>meta\<close> returns \<open>None\<close> and does nothing. If it is the file of the pull request
  being closed, \<open>close_pull_request\<close> swallows the failure without a log line and goes on
  to its requests with the comment it was given: only the links are missing.
\<close>

theorem metadata_read_failure_degrades:
  fixes E :: "'x env" and s :: "'x world"
  assumes "unreadable (json_files s p)"
  shows "(branch_path E s = Some p \<longrightarrow>
            fst (meta E key value s) = Inr JNull
          \<and> json_files (snd (meta E key value s)) = json_files s
          \<and> trace (snd (meta E key value s)) =
              trace s @ [Dumped (''Could not update '%s' with '%s'' @ [CHR 0x27]) [key_json key, value],
                         Printed ''/---''])
       \<and> (branch_path E s = None \<longrightarrow> meta E key value s = (Inr JNull, s))
       \<and> (record_path E pull_request_ID = p \<longrightarrow>
            close_pull_request E repo_name pull_request_ID comment0 s =
              close_requests E repo_name pull_request_ID
                (if comment0 = None then opt_close_default_comment E else comment0) s)"
proof (intro conjI impI)
  assume bp: "branch_path E s = Some p"
  obtain e where e: "meta_try key value (json_files s p) = Inl (e, key)"
    using meta_try_unreadable[OF assms] by blast
  show "fst (meta E key value s) = Inr JNull"
    unfolding meta_on_branch[OF bp] e by simp
  show "json_files (snd (meta E key value s)) = json_files s"
    unfolding meta_on_branch[OF bp] e by simp
  show "trace (snd (meta E key value s)) =
      trace s @ [Dumped (''Could not update '%s' with '%s'' @ [CHR 0x27]) [key_json key, value],
                 Printed ''/---'']"
    unfolding meta_on_branch[OF bp] e by simp
next
  assume "branch_path E s = None"
  then show "meta E key value s = (Inr JNull, s)" by (rule meta_off_branch)
next
  assume "record_path E pull_request_ID = p"
  with assms have "unreadable (json_files s (record_path E pull_request_ID))" by simp
  then show "close_pull_request E repo_name pull_request_ID comment0 s =
      close_requests E repo_name pull_request_ID
        (if comment0 = None then opt_close_default_comment E else comment0) s"
    by (rule close_pull_request_unreadable)
qed

theorem metadata_read_failure_counterexample:
  "\<not> debug example_env
   \<and> json_files example_world ''/tmp/git-pull-request-treeish-42'' = None
   \<and> fst (meta example_env (Some ''new_pr_url'') JNull example_world) = Inr JNull
   \<and> trace example_world = []
   \<and> trace (snd (meta example_env (Some ''new_pr_url'') JNull example_world)) =
       [Dumped (''Could not update '%s' with '%s'' @ [CHR 0x27]) [JStr ''new_pr_url'', JNull],
        Printed ''/---'']"
  by code_simp

lemma example_world_branch_path:
  "branch_path example_env example_world = Some ''/tmp/git-pull-request-treeish-42''"
  by code_simp

theorem metadata_read_failure_degrades_witness:
  "unreadable (json_files example_world ''/tmp/git-pull-request-treeish-42'')
   \<and> branch_path example_env example_world = Some ''/tmp/git-pull-request-treeish-42''
   \<and> fst (meta example_env (Some ''new_pr_url'') JNull example_world) = Inr JNull
   \<and> record_path example_env (Some 42) = ''/tmp/git-pull-request-treeish-42''
   \<and> close_pull_request example_env ''o/r'' (Some 42) (Some ''done'') example_world =
       close_requests example_env ''o/r'' (Some 42) (Some ''done'') example_world"
proof -
  have u: "unreadable (json_files example_world ''/tmp/git-pull-request-treeish-42'')"
    by (simp add: unreadable_def example_world_def)
  have r: "record_path example_env (Some 42) = ''/tmp/git-pull-request-treeish-42''"
    by code_simp
  show ?thesis
    using metadata_read_failure_degrades [OF u, of example_env "Some ''new_pr_url''" JNull "Some 42"
        "''o/r''" "Some ''done''"] u r example_world_branch_path
    by simp
qed

section \<open>Continuing an update\<close>


lemma only_runsI:
  assumes "\<And>s. \<exists>cs. sys_commands (trace (snd (m s))) = sys_commands (trace s) @ cs \<and> list_all P cs"
  shows "only_runs P m"
  using assms by (simp add: only_runs_def)

lemma only_runs_same_trace:
  assumes "\<And>s. sys_commands (trace (snd (m s))) = sys_commands (trace s)"
  shows "only_runs P m"
  by (rule only_runsI) (simp add: assms)






lemma get_work_dir_state: "\<exists>c. snd (get_work_dir E s) = s\<lparr>work_dir_cache := c\<rparr>"
proof (cases "work_dir_cache s")
  case None
  then show ?thesis by (simp add: get_work_dir_def Let_def) blast
next
  case (Some w)
  then have "snd (get_work_dir E s) = s\<lparr>work_dir_cache := work_dir_cache s\<rparr>"
    by (simp add: get_work_dir_def)
  then show ?thesis by blast
qed



lemma only_runs_get_work_dir: "only_runs P (liftS (get_work_dir E))"
proof (rule only_runs_same_trace)
  fix s
  obtain c where "snd (get_work_dir E s) = s\<lparr>work_dir_cache := c\<rparr>" using get_work_dir_state by blast
  then show "sys_commands (trace (snd (liftS (get_work_dir E) s))) = sys_commands (trace s)"
    by (cases "get_work_dir E s") (simp add: liftS_def)
qed















lemma only_runs_notin:
  assumes "only_runs P m" and "\<not> P c"
  shows "\<exists>cs. sys_commands (trace (snd (m s))) = sys_commands (trace s) @ cs \<and> c \<notin> set cs"
proof -
  from assms(1) obtain cs where "sys_commands (trace (snd (m s))) = sys_commands (trace s) @ cs"
    "list_all P cs" unfolding only_runs_def by blast
  moreover from this assms(2) have "c \<notin> set cs" by (auto simp: list_all_iff)
  ultimately show ?thesis by blast
qed







lemma os_popen_cong:
  assumes "cwd s' = cwd s" and "ext s' = ext s"
  shows "os_popen E c s' = os_popen E c s"
  using assms by (simp add: os_popen_def)

lemma branch_path_cong:
  assumes "cwd s' = cwd s" and "ext s' = ext s"
  shows "branch_path E s' = branch_path E s"
  by (simp add: branch_path_def os_popen_cong[OF assms])






section \<open>The guard on the current branch\<close>



lemma bindE_Inl: "m s = (Inl e, s') \<Longrightarrow> bindE m f s = (Inl e, s')"
  by (simp add: bindE_def)






section \<open>Starting an update with a work directory\<close>

lemma update_branch_work_dir_raises:
  fixes E :: "'x env" and s :: "'x world"
  assumes "work_dir_cache s = Some (WPath w)" and "w \<noteq> []"
    and "\<not> fst (in_work_dir E s)"
    and "path_isdir E (cwd s) w (ext s)"
  shows "update_branch E branch_name s =
     (Inl TypeError,
      s\<lparr>cwd := w,
        raw_files := (raw_files s)(path_join (path_join w ''.git'') ''original_dir_path'' \<mapsto> [])\<rparr>)"
proof -
  have g: "get_work_dir E s = (WPath w, s)"
    using assms(1) by (simp add: get_work_dir_def)
  have i: "in_work_dir E s = (False, s)"
    using assms(3) g by (simp add: in_work_dir_def Let_def)
  have c: "os_chdir E (Str w) s = (Inr (), s\<lparr>cwd := w\<rparr>)"
    using assms(4) by (simp add: os_chdir_def)
  have wr: "write_binary p (Str t) s' =
      (Inl TypeError, s'\<lparr>raw_files := (raw_files s')(p \<mapsto> [])\<rparr>)" for p t and s' :: "'x world"
    by (simp add: write_binary_def)
  show ?thesis
    unfolding update_branch_def
    using assms(2)
    by (simp add: bindE_def liftS_def i g c wr returnE_def raiseE_def)
qed

text \<open>
  Claim C6 does not hold of the code. With \<open>/work\<close> configured as the work directory and
  the update started from \<open>/repo\<close>, \<open>update_branch\<close> switches into \<open>/work\<close>, opens the pointer
  file in binary mode and raises \<open>TypeError\<close> on writing the original location, a \<open>str\<close>, to
  it: the file is left empty, and neither the reset, nor the checkout, nor the merge is run.
\<close>

theorem update_branch_work_dir_type_error:
  "fst (in_work_dir example_env_work_dir example_fetched) = False
   \<and> fst (get_work_dir example_env_work_dir example_fetched) = WPath ''/work''
   \<and> fst (update_branch example_env_work_dir ''pull-request-42-JIRA-99'' example_fetched) = Inl TypeError
   \<and> trace (snd (update_branch example_env_work_dir ''pull-request-42-JIRA-99'' example_fetched)) = []
   \<and> cwd (snd (update_branch example_env_work_dir ''pull-request-42-JIRA-99'' example_fetched)) = ''/work''
   \<and> raw_files (snd (update_branch example_env_work_dir ''pull-request-42-JIRA-99'' example_fetched))
        ''/work/.git/original_dir_path'' = Some []"
  by code_simp

section \<open>Requests and their failures\<close>

lemma github_json_request_raises:
  assumes "http_send E (if truthy params then ''POST'' else ''GET'') url
             (if truthy params then params else JNull) (ext s) = (outcome, x')"
    and "outcome = Transport_failure \<or> outcome = Response status Empty_body
           \<or> outcome = Response status Malformed_body"
  shows "fst (github_json_request E url params s) =
     Inl (if outcome = Transport_failure then AttributeError
          else if outcome = Response status Empty_body
            then UserWarning ''Invalid response from github''
          else ValueError)"
  using assms
  by (auto simp: github_json_request_def github_request_def bindE_def raiseE_def Let_def)

lemma github_json_request_any_status:
  assumes "http_send E (if truthy params then ''POST'' else ''GET'') url
             (if truthy params then params else JNull) (ext s) = (Response status (Json_body j), x')"
  shows "fst (github_json_request E url params s) = Inr j"
  using assms
  by (simp add: github_json_request_def github_request_def bindE_def returnE_def Let_def)

lemma command_submit_recovers:
  "fst (command_submit_request example_env_created ''https://api.github.com/repos/rev/r/pulls''
          (JObj [(''title'', JStr ''Fix it'')]) ''rev/r'' ''pull-request-42-JIRA-99'' example_fetched) =
     Inr example_created
   \<and> fst (command_submit_request example_env_created ''https://api.github.com/repos/rev/r/pulls''
          (JObj [(''title'', JStr ''Fix it'')]) ''rev/r'' ''some-other-branch'' example_fetched) =
     Inl AttributeError"
  by code_simp


end
